theory Spec2Isabelle
  imports Main "HOL-Library.Word"
begin

section \<open>The Pterodactyl user resource of \<^verbatim>\<open>internal/provider/user_resource.go\<close>\<close>

text \<open>
  The resource implements the lifecycle methods \<open>Create\<close>, \<open>Read\<close>, \<open>Update\<close>,
  \<open>Delete\<close>, \<open>Configure\<close> and \<open>ImportState\<close> of a Terraform plugin-framework resource.
  Each method receives a request and a pointer to a response; the embedding passes the
  response in and returns it updated, together with the list of remote calls made.
  The framework types and the Pterodactyl client are collaborators outside the file; the
  parts of them the methods use are modelled below, the remote side as a record of
  functions so that every theorem holds for every remote behaviour.
\<close>

subsection \<open>Framework values: \<open>types.String\<close>, \<open>types.Int32\<close>\<close>

type_synonym int32 = "32 word"

text \<open>
  A framework attribute value is null, unknown or known. \<open>ValueString\<close> and
  \<open>ValueInt32\<close> give the zero value of the Go type for null and unknown.
\<close>

datatype types_String = StringNull | StringUnknown | StringValue string

datatype types_Int32 = Int32Null | Int32Unknown | Int32Value int32

fun ValueString :: "types_String \<Rightarrow> string" where
  "ValueString (StringValue s) = s"
| "ValueString StringNull = []"
| "ValueString StringUnknown = []"

fun ValueInt32 :: "types_Int32 \<Rightarrow> int32" where
  "ValueInt32 (Int32Value n) = n"
| "ValueInt32 Int32Null = 0"
| "ValueInt32 Int32Unknown = 0"

subsection \<open>Diagnostics\<close>

datatype diag_Severity = SeverityError | SeverityWarning

datatype Diagnostic = NewErrorDiagnostic string string | NewWarningDiagnostic string string

fun Severity :: "Diagnostic \<Rightarrow> diag_Severity" where
  "Severity (NewErrorDiagnostic s d) = SeverityError"
| "Severity (NewWarningDiagnostic s d) = SeverityWarning"

fun Summary :: "Diagnostic \<Rightarrow> string" where
  "Summary (NewErrorDiagnostic s d) = s"
| "Summary (NewWarningDiagnostic s d) = s"

fun Detail :: "Diagnostic \<Rightarrow> string" where
  "Detail (NewErrorDiagnostic s d) = d"
| "Detail (NewWarningDiagnostic s d) = d"

text \<open>\<open>HasError\<close> loops over the diagnostics and stops at the first of error severity.\<close>

fun HasError :: "Diagnostic list \<Rightarrow> bool" where
  "HasError [] = False"
| "HasError (d # ds) = (if Severity d = SeverityError then True else HasError ds)"

fun Contains :: "Diagnostic list \<Rightarrow> Diagnostic \<Rightarrow> bool" where
  "Contains [] x = False"
| "Contains (d # ds) x = (if d = x then True else Contains ds x)"

text \<open>
  The framework's \<open>Append\<close> adds the given diagnostics one by one and skips one that the
  collection already contains; \<open>AddError\<close> is \<open>Append\<close> of one new error diagnostic.
\<close>

fun Append :: "Diagnostic list \<Rightarrow> Diagnostic list \<Rightarrow> Diagnostic list" where
  "Append diags [] = diags"
| "Append diags (d # ds) = Append (if Contains diags d then diags else diags @ [d]) ds"

definition AddError :: "Diagnostic list \<Rightarrow> string \<Rightarrow> string \<Rightarrow> Diagnostic list" where
  "AddError diags summary detail = Append diags [NewErrorDiagnostic summary detail]"

subsection \<open>The resource model and the client's data\<close>

text \<open>\<open>userResourceModel\<close>, lines 36 to 44 of the source.\<close>

record userResourceModel =
  ID :: types_Int32
  Username :: types_String
  Email :: types_String
  FirstName :: types_String
  LastName :: types_String
  CreatedAt :: types_String
  UpdatedAt :: types_String

text \<open>
  \<open>pterodactyl.PartialUser\<close> and the fields of \<open>pterodactyl.User\<close> that the resource
  reads. The type \<open>'t\<close> stands for \<open>time.Time\<close>.
\<close>

record PartialUser =
  Partial_Username :: string
  Partial_Email :: string
  Partial_FirstName :: string
  Partial_LastName :: string

record 't User =
  User_ID :: int32
  User_Username :: string
  User_Email :: string
  User_FirstName :: string
  User_LastName :: string
  User_CreatedAt :: 't
  User_UpdatedAt :: 't

text \<open>
  A \<open>*pterodactyl.Client\<close> as the resource sees it: five methods whose results depend on
  the remote panel. A method returns either the text of its error (\<open>err.Error()\<close>, on
  the left) or its value; \<open>DeleteUser\<close> returns only the error, \<open>None\<close> for \<open>nil\<close>.
\<close>

record 't Client =
  CreateUser :: "PartialUser \<Rightarrow> string + 't User"
  GetUser :: "int32 \<Rightarrow> string + 't User"
  GetUserUsername :: "string \<Rightarrow> string + 't User"
  UpdateUser :: "int32 \<Rightarrow> PartialUser \<Rightarrow> string + 't User"
  DeleteUser :: "int32 \<Rightarrow> string option"

text \<open>The remote calls a method issued, in order, with their arguments.\<close>

datatype api_call =
    CreateUser_call PartialUser
  | GetUser_call int32
  | GetUserUsername_call string
  | UpdateUser_call int32 PartialUser
  | DeleteUser_call int32

text \<open>\<open>userResource\<close>, lines 31 to 33: the client pointer, \<open>None\<close> for \<open>nil\<close>.\<close>

record 't userResource =
  client :: "'t Client option"

definition NewUserResource :: "'t userResource" where
  "NewUserResource = \<lparr>client = None\<rparr>"

subsection \<open>Requests, responses and the surroundings of a call\<close>

text \<open>
  \<open>req.Plan\<close> and \<open>req.State\<close> are decoded by \<open>Get\<close> into a \<open>userResourceModel\<close>,
  which also returns diagnostics: the data carries both outcomes of its decoding.
\<close>

record tfsdk_Data =
  Raw :: userResourceModel
  GetDiags :: "Diagnostic list"

definition Get :: "tfsdk_Data \<Rightarrow> Diagnostic list \<times> userResourceModel" where
  "Get data = (GetDiags data, Raw data)"

record PlanRequest =
  Plan :: tfsdk_Data

record StateRequest =
  ReqState :: tfsdk_Data

record ImportStateRequest =
  ImportID :: string

text \<open>
  \<open>resource.ConfigureResponse\<close> holds diagnostics only; the responses of the other
  methods hold diagnostics and the state, \<open>None\<close> while no record is written.
\<close>

record ConfigureResponse =
  Diagnostics :: "Diagnostic list"

record Response = ConfigureResponse +
  State :: "userResourceModel option"

text \<open>
  What a call depends on besides its arguments: the clock (\<open>time.Now()\<close>), the
  formatting of a time under a layout (\<open>Time.Format\<close>), and the diagnostics with which
  the framework answers \<open>State.Set\<close> for a model.
\<close>

record 't env =
  Now :: 't
  Format :: "'t \<Rightarrow> string \<Rightarrow> string"
  SetDiags :: "userResourceModel \<Rightarrow> Diagnostic list"

definition RFC3339 :: string where
  "RFC3339 = ''2006-01-02T15:04:05Z07:00''"

text \<open>\<open>State.Set\<close> leaves the state as it is when the encoding reports an error.\<close>

definition State_Set ::
  "'t env \<Rightarrow> userResourceModel option \<Rightarrow> userResourceModel
     \<Rightarrow> userResourceModel option \<times> Diagnostic list" where
  "State_Set e st val =
     (let diags = SetDiags e val
      in if HasError diags then (st, diags) else (Some val, diags))"

text \<open>
  A method either returns, with its response and the calls it made, or panics: the
  client's methods read the fields of their receiver, so a call through a \<open>nil\<close> client
  pointer is a nil pointer dereference.
\<close>

datatype panic = NilPointerDereference

record outcome =
  out_resp :: Response
  out_calls :: "api_call list"

subsection \<open>\<open>strconv.FormatInt\<close> in base 10\<close>

definition digits :: string where
  "digits = ''0123456789abcdefghijklmnopqrstuvwxyz''"

fun formatBits :: "nat \<Rightarrow> string" where
  "formatBits n = (if n < 10 then [digits ! n] else formatBits (n div 10) @ [digits ! (n mod 10)])"

declare formatBits.simps [simp del]

definition FormatInt :: "int \<Rightarrow> string" where
  "FormatInt i = (if i < 0 then CHR ''-'' # formatBits (nat (- i)) else formatBits (nat i))"

subsection \<open>The lifecycle methods\<close>

text \<open>The struct literal of lines 105 to 110 and 180 to 185, the same in both methods.\<close>

definition partialUser_of :: "userResourceModel \<Rightarrow> PartialUser" where
  "partialUser_of plan =
     \<lparr>Partial_Username = ValueString (Username plan),
      Partial_Email = ValueString (Email plan),
      Partial_FirstName = ValueString (FirstName plan),
      Partial_LastName = ValueString (LastName plan)\<rparr>"

text \<open>\<open>Create\<close>, lines 95 to 133.\<close>

definition Create ::
  "'t env \<Rightarrow> 't userResource \<Rightarrow> PlanRequest \<Rightarrow> Response \<Rightarrow> panic + outcome" where
  "Create e r req resp =
     (let (diags, plan) = Get (Plan req);
          resp1 = resp\<lparr>Diagnostics := Append (Diagnostics resp) diags\<rparr>
      in if HasError (Diagnostics resp1) then Inr \<lparr>out_resp = resp1, out_calls = []\<rparr>
         else
           let partialUser = partialUser_of plan
           in case client r of
                None \<Rightarrow> Inl NilPointerDereference
              | Some c \<Rightarrow>
                  (case CreateUser c partialUser of
                     Inl err \<Rightarrow>
                       Inr \<lparr>out_resp = resp1\<lparr>Diagnostics :=
                              AddError (Diagnostics resp1) ''Error creating user''
                                (''Could not create user, unexpected error: '' @ err)\<rparr>,
                            out_calls = [CreateUser_call partialUser]\<rparr>
                   | Inr user \<Rightarrow>
                       let plan1 = plan\<lparr>ID := Int32Value (User_ID user),
                                         CreatedAt := StringValue (Format e (User_CreatedAt user) RFC3339),
                                         UpdatedAt := StringValue (Format e (Now e) RFC3339)\<rparr>;
                           (st, diags2) = State_Set e (State resp1) plan1;
                           resp2 = resp1\<lparr>State := st,
                                         Diagnostics := Append (Diagnostics resp1) diags2\<rparr>
                       in Inr \<lparr>out_resp = resp2, out_calls = [CreateUser_call partialUser]\<rparr>))"

text \<open>\<open>Read\<close>, lines 136 to 168.\<close>

definition Read ::
  "'t env \<Rightarrow> 't userResource \<Rightarrow> StateRequest \<Rightarrow> Response \<Rightarrow> panic + outcome" where
  "Read e r req resp =
     (let (diags, state) = Get (ReqState req);
          resp1 = resp\<lparr>Diagnostics := Append (Diagnostics resp) diags\<rparr>
      in if HasError (Diagnostics resp1) then Inr \<lparr>out_resp = resp1, out_calls = []\<rparr>
         else
           case client r of
             None \<Rightarrow> Inl NilPointerDereference
           | Some c \<Rightarrow>
               (case GetUser c (ValueInt32 (ID state)) of
                  Inl err \<Rightarrow>
                    Inr \<lparr>out_resp = resp1\<lparr>Diagnostics :=
                           AddError (Diagnostics resp1) ''Error Reading Pterodactyl User''
                             (''Could not read Pterodactyl user ID ''
                                @ FormatInt (sint (ValueInt32 (ID state))) @ '': '' @ err)\<rparr>,
                         out_calls = [GetUser_call (ValueInt32 (ID state))]\<rparr>
                | Inr user \<Rightarrow>
                    let state1 = state\<lparr>Email := StringValue (User_Email user),
                                        FirstName := StringValue (User_FirstName user),
                                        LastName := StringValue (User_LastName user),
                                        UpdatedAt := StringValue (Format e (User_UpdatedAt user) RFC3339),
                                        CreatedAt := StringValue (Format e (User_CreatedAt user) RFC3339)\<rparr>;
                        (st, diags2) = State_Set e (State resp1) state1;
                        resp2 = resp1\<lparr>State := st,
                                      Diagnostics := Append (Diagnostics resp1) diags2\<rparr>
                    in Inr \<lparr>out_resp = resp2,
                            out_calls = [GetUser_call (ValueInt32 (ID state))]\<rparr>))"

text \<open>\<open>Update\<close>, lines 170 to 208.\<close>

definition Update ::
  "'t env \<Rightarrow> 't userResource \<Rightarrow> PlanRequest \<Rightarrow> Response \<Rightarrow> panic + outcome" where
  "Update e r req resp =
     (let (diags, plan) = Get (Plan req);
          resp1 = resp\<lparr>Diagnostics := Append (Diagnostics resp) diags\<rparr>
      in if HasError (Diagnostics resp1) then Inr \<lparr>out_resp = resp1, out_calls = []\<rparr>
         else
           let partialUser = partialUser_of plan
           in case client r of
                None \<Rightarrow> Inl NilPointerDereference
              | Some c \<Rightarrow>
                  (case UpdateUser c (ValueInt32 (ID plan)) partialUser of
                     Inl err \<Rightarrow>
                       Inr \<lparr>out_resp = resp1\<lparr>Diagnostics :=
                              AddError (Diagnostics resp1) ''Error Updating Pterodactyl User''
                                (''Could not update user, unexpected error: '' @ err)\<rparr>,
                            out_calls = [UpdateUser_call (ValueInt32 (ID plan)) partialUser]\<rparr>
                   | Inr user \<Rightarrow>
                       let plan1 = plan\<lparr>Email := StringValue (User_Email user),
                                         FirstName := StringValue (User_FirstName user),
                                         LastName := StringValue (User_LastName user),
                                         UpdatedAt := StringValue (Format e (User_UpdatedAt user) RFC3339)\<rparr>;
                           (st, diags2) = State_Set e (State resp1) plan1;
                           resp2 = resp1\<lparr>State := st,
                                         Diagnostics := Append (Diagnostics resp1) diags2\<rparr>
                       in Inr \<lparr>out_resp = resp2,
                               out_calls = [UpdateUser_call (ValueInt32 (ID plan)) partialUser]\<rparr>))"

text \<open>\<open>Delete\<close>, lines 211 to 229.\<close>

definition Delete ::
  "'t userResource \<Rightarrow> StateRequest \<Rightarrow> Response \<Rightarrow> panic + outcome" where
  "Delete r req resp =
     (let (diags, state) = Get (ReqState req);
          resp1 = resp\<lparr>Diagnostics := Append (Diagnostics resp) diags\<rparr>
      in if HasError (Diagnostics resp1) then Inr \<lparr>out_resp = resp1, out_calls = []\<rparr>
         else
           case client r of
             None \<Rightarrow> Inl NilPointerDereference
           | Some c \<Rightarrow>
               (case DeleteUser c (ValueInt32 (ID state)) of
                  Some err \<Rightarrow>
                    Inr \<lparr>out_resp = resp1\<lparr>Diagnostics :=
                           AddError (Diagnostics resp1) ''Error Deleting Pterodactyl User''
                             (''Could not delete user, unexpected error: '' @ err)\<rparr>,
                         out_calls = [DeleteUser_call (ValueInt32 (ID state))]\<rparr>
                | None \<Rightarrow>
                    Inr \<lparr>out_resp = resp1,
                         out_calls = [DeleteUser_call (ValueInt32 (ID state))]\<rparr>))"

text \<open>
  \<open>Configure\<close>, lines 232 to 251. \<open>req.ProviderData\<close> is an interface value: \<open>nil\<close>, a
  \<open>*pterodactyl.Client\<close> (itself possibly a nil pointer), or a value of another type, of
  which the method uses only the name that \<open>%T\<close> prints.
\<close>

datatype 't any = any_nil | Client_pointer "'t Client option" | Other_value string

fun is_nil :: "'t any \<Rightarrow> bool" where
  "is_nil any_nil = True"
| "is_nil (Client_pointer c) = False"
| "is_nil (Other_value tn) = False"

fun assert_Client :: "'t any \<Rightarrow> 't Client option \<times> bool" where
  "assert_Client (Client_pointer c) = (c, True)"
| "assert_Client any_nil = (None, False)"
| "assert_Client (Other_value tn) = (None, False)"

fun type_name :: "'t any \<Rightarrow> string" where
  "type_name any_nil = ''<nil>''"
| "type_name (Client_pointer c) = ''*pterodactyl.Client''"
| "type_name (Other_value tn) = tn"

record 't ConfigureRequest =
  ProviderData :: "'t any"

definition Configure ::
  "'t userResource \<Rightarrow> 't ConfigureRequest \<Rightarrow> ConfigureResponse
     \<Rightarrow> 't userResource \<times> ConfigureResponse" where
  "Configure r req resp =
     (if is_nil (ProviderData req) then (r, resp)
      else
        let (c, ok) = assert_Client (ProviderData req)
        in if \<not> ok then
             (r, resp\<lparr>Diagnostics :=
                   AddError (Diagnostics resp) ''Unexpected Data Source Configure Type''
                     (''Expected *pterodactyl.Client, got: '' @ type_name (ProviderData req)
                        @ ''. Please report this issue to the provider developers.'')\<rparr>)
           else (r\<lparr>client := c\<rparr>, resp))"

text \<open>\<open>ImportState\<close>, lines 253 to 282.\<close>

definition ImportState ::
  "'t env \<Rightarrow> 't userResource \<Rightarrow> ImportStateRequest \<Rightarrow> Response \<Rightarrow> panic + outcome" where
  "ImportState e r req resp =
     (let username = ImportID req
      in case client r of
           None \<Rightarrow> Inl NilPointerDereference
         | Some c \<Rightarrow>
             (case GetUserUsername c username of
                Inl err \<Rightarrow>
                  Inr \<lparr>out_resp = resp\<lparr>Diagnostics :=
                         AddError (Diagnostics resp) ''Error Importing Pterodactyl User''
                           (''Could not import user: '' @ err)\<rparr>,
                       out_calls = [GetUserUsername_call username]\<rparr>
              | Inr user \<Rightarrow>
                  let state = \<lparr>ID = Int32Value (User_ID user),
                               Username = StringValue (User_Username user),
                               Email = StringValue (User_Email user),
                               FirstName = StringValue (User_FirstName user),
                               LastName = StringValue (User_LastName user),
                               CreatedAt = StringValue (Format e (User_CreatedAt user) RFC3339),
                               UpdatedAt = StringValue (Format e (User_UpdatedAt user) RFC3339)\<rparr>;
                      (st, diags) = State_Set e (State resp) state;
                      resp1 = resp\<lparr>State := st,
                                   Diagnostics := Append (Diagnostics resp) diags\<rparr>
                  in Inr \<lparr>out_resp = resp1, out_calls = [GetUserUsername_call username]\<rparr>))"

subsection \<open>Reading a decimal numeral\<close>

text \<open>
  The integer that a decimal numeral denotes: an optional minus sign, then digits with
  the most significant first. It states what \<open>FormatInt\<close> has to produce.
\<close>

definition digit_value :: "char \<Rightarrow> nat" where
  "digit_value ch = of_char ch - 48"

definition digits_value :: "string \<Rightarrow> nat" where
  "digits_value ds = foldl (\<lambda>a ch. 10 * a + digit_value ch) 0 ds"

definition decimal_value :: "string \<Rightarrow> int" where
  "decimal_value s =
     (case s of
        [] \<Rightarrow> 0
      | ch # ds \<Rightarrow> if ch = CHR ''-'' then - int (digits_value ds) else int (digits_value s))"

subsection \<open>Sample surroundings\<close>

text \<open>
  In the samples a time is represented by its RFC 3339 text. The panel \<open>panel\<close> holds one
  user, whose username on the remote side is \<open>alice2\<close>; \<open>panel_down\<close> fails every call.
\<close>

definition wall_clock :: "string env" where
  "wall_clock = \<lparr>Now = ''2024-06-01T12:00:00Z'', Format = (\<lambda>t layout. t), SetDiags = (\<lambda>m. [])\<rparr>"

definition alice_plan :: userResourceModel where
  "alice_plan =
     \<lparr>ID = Int32Unknown, Username = StringValue ''alice'', Email = StringValue ''a@x.com'',
      FirstName = StringValue ''A'', LastName = StringValue ''L'',
      CreatedAt = StringUnknown, UpdatedAt = StringUnknown\<rparr>"

definition alice_record :: userResourceModel where
  "alice_record =
     \<lparr>ID = Int32Value 42, Username = StringValue ''alice'', Email = StringValue ''a@x.com'',
      FirstName = StringValue ''A'', LastName = StringValue ''L'',
      CreatedAt = StringValue ''2024-01-01T00:00:00Z'',
      UpdatedAt = StringValue ''2024-01-01T00:00:00Z''\<rparr>"

definition panel :: "string Client" where
  "panel =
     \<lparr>CreateUser = (\<lambda>p. Inr \<lparr>User_ID = 42, User_Username = Partial_Username p,
                               User_Email = Partial_Email p,
                               User_FirstName = Partial_FirstName p,
                               User_LastName = Partial_LastName p,
                               User_CreatedAt = ''2024-01-01T00:00:00Z'',
                               User_UpdatedAt = ''2024-01-01T00:00:00Z''\<rparr>),
      GetUser = (\<lambda>i. Inr \<lparr>User_ID = i, User_Username = ''alice2'',
                            User_Email = ''b@x.com'',
                            User_FirstName = ''Alice'', User_LastName = ''Liddell'',
                            User_CreatedAt = ''2024-01-01T00:00:00Z'',
                            User_UpdatedAt = ''2024-02-02T00:00:00Z''\<rparr>),
      GetUserUsername = (\<lambda>name. Inr \<lparr>User_ID = 42, User_Username = ''alice2'',
                                       User_Email = ''b@x.com'',
                                       User_FirstName = ''Alice'', User_LastName = ''Liddell'',
                                       User_CreatedAt = ''2024-01-01T00:00:00Z'',
                                       User_UpdatedAt = ''2024-02-02T00:00:00Z''\<rparr>),
      UpdateUser = (\<lambda>i p. Inr \<lparr>User_ID = i, User_Username = ''alice2'',
                                 User_Email = Partial_Email p,
                                 User_FirstName = Partial_FirstName p,
                                 User_LastName = Partial_LastName p,
                                 User_CreatedAt = ''2024-01-01T00:00:00Z'',
                                 User_UpdatedAt = ''2024-03-03T00:00:00Z''\<rparr>),
      DeleteUser = (\<lambda>i. None)\<rparr>"

definition panel_down :: "string Client" where
  "panel_down =
     \<lparr>CreateUser = (\<lambda>p. Inl ''connection refused''),
      GetUser = (\<lambda>i. Inl ''connection refused''),
      GetUserUsername = (\<lambda>name. Inl ''connection refused''),
      UpdateUser = (\<lambda>i p. Inl ''connection refused''),
      DeleteUser = (\<lambda>i. Some ''connection refused'')\<rparr>"

definition no_response :: Response where
  "no_response = \<lparr>Diagnostics = [], State = None\<rparr>"

definition prior_response :: Response where
  "prior_response = \<lparr>Diagnostics = [], State = Some alice_record\<rparr>"

definition undecodable :: tfsdk_Data where
  "undecodable =
     \<lparr>Raw = alice_record,
      GetDiags = [NewErrorDiagnostic ''Value Conversion Error'' ''cannot decode the object'']\<rparr>"

subsection \<open>An aborted call\<close>

text \<open>
  A result is an abort with a given error when the method returned, the state of the
  response is the one passed in, and the diagnostics hold the error diagnostic with the
  given summary and detail.
\<close>

definition aborted :: "Response \<Rightarrow> string \<Rightarrow> string \<Rightarrow> panic + outcome \<Rightarrow> bool" where
  "aborted resp summary detail res =
     (case res of
        Inl p \<Rightarrow> False
      | Inr out \<Rightarrow>
          State (out_resp out) = State resp
          \<and> Contains (Diagnostics (out_resp out)) (NewErrorDiagnostic summary detail))"

section \<open>Properties\<close>

subsection \<open>Diagnostics\<close>

lemma Contains_iff: "Contains ds x \<longleftrightarrow> x \<in> set ds"
  by (induction ds) auto

lemma set_Append: "set (Append ds new) = set ds \<union> set new"
  by (induction new arbitrary: ds) (auto simp: Contains_iff)

lemma HasError_iff: "HasError ds \<longleftrightarrow> (\<exists>d \<in> set ds. Severity d = SeverityError)"
  by (induction ds) auto

lemma HasError_Append: "HasError (Append ds new) \<longleftrightarrow> HasError ds \<or> HasError new"
  by (auto simp: HasError_iff set_Append)

lemma AddError_mem: "NewErrorDiagnostic s d \<in> set (AddError ds s d)"
  by (simp add: AddError_def set_Append del: Append.simps)

lemma HasError_AddError: "HasError (AddError ds s d)"
  by (simp add: AddError_def HasError_Append del: Append.simps)

subsection \<open>\<open>strconv.FormatInt\<close> writes the decimal numeral\<close>

lemma digits_value_snoc: "digits_value (ds @ [ch]) = 10 * digits_value ds + digit_value ch"
  by (simp add: digits_value_def)

lemma digit_cases: "d < 10 \<Longrightarrow> d \<in> {0, 1, 2, 3, 4, 5, 6, 7, 8, 9 :: nat}"
  by auto

lemma digit_value_digits: "d < 10 \<Longrightarrow> digit_value (digits ! d) = d"
  by (drule digit_cases) (auto simp: digit_value_def digits_def)

lemma digits_not_minus: "d < 10 \<Longrightarrow> digits ! d \<noteq> CHR ''-''"
  by (drule digit_cases) (auto simp: digits_def)

lemma digits_value_formatBits: "digits_value (formatBits n) = n"
proof (induction n rule: formatBits.induct)
  case (1 n)
  show ?case
  proof (cases "n < 10")
    case True
    then show ?thesis
      by (subst formatBits.simps) (simp add: digits_value_def digit_value_digits)
  next
    case False
    with 1 have "digits_value (formatBits (n div 10)) = n div 10" by simp
    with False show ?thesis
      by (subst formatBits.simps) (simp add: digits_value_snoc digit_value_digits)
  qed
qed

lemma formatBits_no_minus: "CHR ''-'' \<notin> set (formatBits n)"
proof (induction n rule: formatBits.induct)
  case (1 n)
  show ?case
  proof (cases "n < 10")
    case True
    then show ?thesis using digits_not_minus [of n]
      by (subst formatBits.simps) auto
  next
    case False
    with 1 have "CHR ''-'' \<notin> set (formatBits (n div 10))" by simp
    with False digits_not_minus [of "n mod 10"] show ?thesis
      by (subst formatBits.simps) auto
  qed
qed

lemma formatBits_not_Nil: "formatBits n \<noteq> []"
  by (subst formatBits.simps) simp

lemma decimal_value_FormatInt: "decimal_value (FormatInt i) = i"
proof (cases "i < 0")
  case True
  then show ?thesis by (simp add: FormatInt_def decimal_value_def digits_value_formatBits)
next
  case False
  obtain ch ds where f: "formatBits (nat i) = ch # ds"
    using formatBits_not_Nil [of "nat i"] by (cases "formatBits (nat i)") auto
  with formatBits_no_minus [of "nat i"] have "ch \<noteq> CHR ''-''" by auto
  with False f digits_value_formatBits [of "nat i"] show ?thesis
    by (simp add: FormatInt_def decimal_value_def)
qed

subsection \<open>Successful runs\<close>

text \<open>
  A run is successful when the method returns and its response holds no diagnostic of
  error severity; that is the condition under which the host takes over the state.
\<close>

text \<open>
  C1. Every successful \<open>Create\<close> called the remote create with the four declared
  fields of the plan, and wrote a record whose \<open>id\<close> and \<open>created_at\<close> are those of the
  remote response (the time formatted as RFC 3339), whose \<open>updated_at\<close> is the local
  clock formatted as RFC 3339, and whose \<open>username\<close>, \<open>email\<close>, \<open>first_name\<close> and
  \<open>last_name\<close> are the plan's.
\<close>

theorem Create_success_record:
  assumes "Create e r req resp = Inr out"
      and "\<not> HasError (Diagnostics (out_resp out))"
  shows "\<exists>c user m. client r = Some c
       \<and> CreateUser c (partialUser_of (Raw (Plan req))) = Inr user
       \<and> State (out_resp out) = Some m
       \<and> ID m = Int32Value (User_ID user)
       \<and> CreatedAt m = StringValue (Format e (User_CreatedAt user) RFC3339)
       \<and> UpdatedAt m = StringValue (Format e (Now e) RFC3339)
       \<and> Username m = Username (Raw (Plan req))
       \<and> Email m = Email (Raw (Plan req))
       \<and> FirstName m = FirstName (Raw (Plan req))
       \<and> LastName m = LastName (Raw (Plan req))"
  using assms
  by (auto simp: Create_def Get_def Let_def State_Set_def HasError_Append HasError_AddError
      split: if_splits option.splits sum.splits)

theorem Create_success_record_witness:
  "\<exists>out. Create wall_clock \<lparr>client = Some panel\<rparr>
            \<lparr>Plan = \<lparr>Raw = alice_plan, GetDiags = []\<rparr>\<rparr> no_response = Inr out
     \<and> \<not> HasError (Diagnostics (out_resp out))
     \<and> State (out_resp out) = Some
          \<lparr>ID = Int32Value 42, Username = StringValue ''alice'',
           Email = StringValue ''a@x.com'',
           FirstName = StringValue ''A'', LastName = StringValue ''L'',
           CreatedAt = StringValue ''2024-01-01T00:00:00Z'',
           UpdatedAt = StringValue ''2024-06-01T12:00:00Z''\<rparr>
     \<and> (\<exists>c user m. client \<lparr>client = Some panel\<rparr> = Some c
       \<and> CreateUser c (partialUser_of (Raw (Plan \<lparr>Plan = \<lparr>Raw = alice_plan, GetDiags = []\<rparr>\<rparr>)))
           = Inr user
       \<and> State (out_resp out) = Some m
       \<and> ID m = Int32Value (User_ID user)
       \<and> CreatedAt m = StringValue (Format wall_clock (User_CreatedAt user) RFC3339)
       \<and> UpdatedAt m = StringValue (Format wall_clock (Now wall_clock) RFC3339)
       \<and> Username m = Username (Raw (Plan \<lparr>Plan = \<lparr>Raw = alice_plan, GetDiags = []\<rparr>\<rparr>))
       \<and> Email m = Email (Raw (Plan \<lparr>Plan = \<lparr>Raw = alice_plan, GetDiags = []\<rparr>\<rparr>))
       \<and> FirstName m = FirstName (Raw (Plan \<lparr>Plan = \<lparr>Raw = alice_plan, GetDiags = []\<rparr>\<rparr>))
       \<and> LastName m = LastName (Raw (Plan \<lparr>Plan = \<lparr>Raw = alice_plan, GetDiags = []\<rparr>\<rparr>)))"
proof -
  let ?out = "\<lparr>out_resp = \<lparr>Diagnostics = [], State = Some
              \<lparr>ID = Int32Value 42, Username = StringValue ''alice'',
               Email = StringValue ''a@x.com'',
               FirstName = StringValue ''A'', LastName = StringValue ''L'',
               CreatedAt = StringValue ''2024-01-01T00:00:00Z'',
               UpdatedAt = StringValue ''2024-06-01T12:00:00Z''\<rparr>\<rparr>,
            out_calls = [CreateUser_call \<lparr>Partial_Username = ''alice'',
               Partial_Email = ''a@x.com'', Partial_FirstName = ''A'',
               Partial_LastName = ''L''\<rparr>]\<rparr>"
  have run: "Create wall_clock \<lparr>client = Some panel\<rparr>
               \<lparr>Plan = \<lparr>Raw = alice_plan, GetDiags = []\<rparr>\<rparr> no_response = Inr ?out"
    by (simp add: Create_def Get_def State_Set_def partialUser_of_def wall_clock_def
        panel_def alice_plan_def no_response_def)
  have ok: "\<not> HasError (Diagnostics (out_resp ?out))"
    by simp
  have st: "State (out_resp ?out) = Some
          \<lparr>ID = Int32Value 42, Username = StringValue ''alice'',
           Email = StringValue ''a@x.com'',
           FirstName = StringValue ''A'', LastName = StringValue ''L'',
           CreatedAt = StringValue ''2024-01-01T00:00:00Z'',
           UpdatedAt = StringValue ''2024-06-01T12:00:00Z''\<rparr>"
    by simp
  show ?thesis
    by (rule exI [of _ ?out]) (intro conjI run ok st Create_success_record [OF run ok])
qed

text \<open>
  C2. Every successful \<open>Read\<close> fetched the user by the id of the input record and wrote
  a record whose \<open>email\<close>, \<open>first_name\<close>, \<open>last_name\<close>, \<open>created_at\<close> and \<open>updated_at\<close>
  come from the remote payload, while \<open>username\<close> and \<open>id\<close> are those of the input
  record, whatever username the payload carries.
\<close>

theorem Read_success_record:
  assumes "Read e r req resp = Inr out"
      and "\<not> HasError (Diagnostics (out_resp out))"
  shows "\<exists>c user m. client r = Some c
       \<and> GetUser c (ValueInt32 (ID (Raw (ReqState req)))) = Inr user
       \<and> State (out_resp out) = Some m
       \<and> Email m = StringValue (User_Email user)
       \<and> FirstName m = StringValue (User_FirstName user)
       \<and> LastName m = StringValue (User_LastName user)
       \<and> CreatedAt m = StringValue (Format e (User_CreatedAt user) RFC3339)
       \<and> UpdatedAt m = StringValue (Format e (User_UpdatedAt user) RFC3339)
       \<and> Username m = Username (Raw (ReqState req))
       \<and> ID m = ID (Raw (ReqState req))"
  using assms
  by (auto simp: Read_def Get_def Let_def State_Set_def HasError_Append HasError_AddError
      split: if_splits option.splits sum.splits)

theorem Read_success_record_witness:
  "\<exists>out. Read wall_clock \<lparr>client = Some panel\<rparr>
            \<lparr>ReqState = \<lparr>Raw = alice_record, GetDiags = []\<rparr>\<rparr> prior_response = Inr out
     \<and> \<not> HasError (Diagnostics (out_resp out))
     \<and> State (out_resp out) = Some
          \<lparr>ID = Int32Value 42, Username = StringValue ''alice'',
           Email = StringValue ''b@x.com'',
           FirstName = StringValue ''Alice'', LastName = StringValue ''Liddell'',
           CreatedAt = StringValue ''2024-01-01T00:00:00Z'',
           UpdatedAt = StringValue ''2024-02-02T00:00:00Z''\<rparr>
     \<and> (\<exists>c user m. client \<lparr>client = Some panel\<rparr> = Some c
       \<and> GetUser c (ValueInt32 (ID (Raw (ReqState
             \<lparr>ReqState = \<lparr>Raw = alice_record, GetDiags = []\<rparr>\<rparr>)))) = Inr user
       \<and> State (out_resp out) = Some m
       \<and> Email m = StringValue (User_Email user)
       \<and> FirstName m = StringValue (User_FirstName user)
       \<and> LastName m = StringValue (User_LastName user)
       \<and> CreatedAt m = StringValue (Format wall_clock (User_CreatedAt user) RFC3339)
       \<and> UpdatedAt m = StringValue (Format wall_clock (User_UpdatedAt user) RFC3339)
       \<and> Username m = Username (Raw (ReqState \<lparr>ReqState = \<lparr>Raw = alice_record, GetDiags = []\<rparr>\<rparr>))
       \<and> ID m = ID (Raw (ReqState \<lparr>ReqState = \<lparr>Raw = alice_record, GetDiags = []\<rparr>\<rparr>)))"
proof -
  let ?out = "\<lparr>out_resp = \<lparr>Diagnostics = [], State = Some
              \<lparr>ID = Int32Value 42, Username = StringValue ''alice'',
               Email = StringValue ''b@x.com'',
               FirstName = StringValue ''Alice'', LastName = StringValue ''Liddell'',
               CreatedAt = StringValue ''2024-01-01T00:00:00Z'',
               UpdatedAt = StringValue ''2024-02-02T00:00:00Z''\<rparr>\<rparr>,
            out_calls = [GetUser_call 42]\<rparr>"
  have run: "Read wall_clock \<lparr>client = Some panel\<rparr>
               \<lparr>ReqState = \<lparr>Raw = alice_record, GetDiags = []\<rparr>\<rparr> prior_response = Inr ?out"
    by (simp add: Read_def Get_def State_Set_def wall_clock_def
        panel_def alice_record_def prior_response_def)
  have ok: "\<not> HasError (Diagnostics (out_resp ?out))"
    by simp
  have st: "State (out_resp ?out) = Some
          \<lparr>ID = Int32Value 42, Username = StringValue ''alice'',
           Email = StringValue ''b@x.com'',
           FirstName = StringValue ''Alice'', LastName = StringValue ''Liddell'',
           CreatedAt = StringValue ''2024-01-01T00:00:00Z'',
           UpdatedAt = StringValue ''2024-02-02T00:00:00Z''\<rparr>"
    by simp
  show ?thesis
    by (rule exI [of _ ?out]) (intro conjI run ok st Read_success_record [OF run ok])
qed


text \<open>
  C3. Every successful \<open>Update\<close> wrote a record whose \<open>email\<close>, \<open>first_name\<close>,
  \<open>last_name\<close> and \<open>updated_at\<close> come from the remote update response, while \<open>id\<close>,
  \<open>created_at\<close> and \<open>username\<close> are exactly those of the input plan.
\<close>

theorem Update_success_record:
  assumes "Update e r req resp = Inr out"
      and "\<not> HasError (Diagnostics (out_resp out))"
  shows "\<exists>c user m. client r = Some c
       \<and> UpdateUser c (ValueInt32 (ID (Raw (Plan req)))) (partialUser_of (Raw (Plan req)))
           = Inr user
       \<and> State (out_resp out) = Some m
       \<and> Email m = StringValue (User_Email user)
       \<and> FirstName m = StringValue (User_FirstName user)
       \<and> LastName m = StringValue (User_LastName user)
       \<and> UpdatedAt m = StringValue (Format e (User_UpdatedAt user) RFC3339)
       \<and> ID m = ID (Raw (Plan req))
       \<and> CreatedAt m = CreatedAt (Raw (Plan req))
       \<and> Username m = Username (Raw (Plan req))"
  using assms
  by (auto simp: Update_def Get_def Let_def State_Set_def HasError_Append HasError_AddError
      split: if_splits option.splits sum.splits)

theorem Update_success_record_witness:
  "\<exists>out. Update wall_clock \<lparr>client = Some panel\<rparr>
            \<lparr>Plan = \<lparr>Raw = alice_record, GetDiags = []\<rparr>\<rparr> prior_response = Inr out
     \<and> \<not> HasError (Diagnostics (out_resp out))
     \<and> State (out_resp out) = Some
          \<lparr>ID = Int32Value 42, Username = StringValue ''alice'',
           Email = StringValue ''a@x.com'',
           FirstName = StringValue ''A'', LastName = StringValue ''L'',
           CreatedAt = StringValue ''2024-01-01T00:00:00Z'',
           UpdatedAt = StringValue ''2024-03-03T00:00:00Z''\<rparr>
     \<and> (\<exists>c user m. client \<lparr>client = Some panel\<rparr> = Some c
       \<and> UpdateUser c
            (ValueInt32 (ID (Raw (Plan \<lparr>Plan = \<lparr>Raw = alice_record, GetDiags = []\<rparr>\<rparr>))))
            (partialUser_of (Raw (Plan \<lparr>Plan = \<lparr>Raw = alice_record, GetDiags = []\<rparr>\<rparr>)))
           = Inr user
       \<and> State (out_resp out) = Some m
       \<and> Email m = StringValue (User_Email user)
       \<and> FirstName m = StringValue (User_FirstName user)
       \<and> LastName m = StringValue (User_LastName user)
       \<and> UpdatedAt m = StringValue (Format wall_clock (User_UpdatedAt user) RFC3339)
       \<and> ID m = ID (Raw (Plan \<lparr>Plan = \<lparr>Raw = alice_record, GetDiags = []\<rparr>\<rparr>))
       \<and> CreatedAt m = CreatedAt (Raw (Plan \<lparr>Plan = \<lparr>Raw = alice_record, GetDiags = []\<rparr>\<rparr>))
       \<and> Username m = Username (Raw (Plan \<lparr>Plan = \<lparr>Raw = alice_record, GetDiags = []\<rparr>\<rparr>)))"
proof -
  let ?out = "\<lparr>out_resp = \<lparr>Diagnostics = [], State = Some
              \<lparr>ID = Int32Value 42, Username = StringValue ''alice'',
               Email = StringValue ''a@x.com'',
               FirstName = StringValue ''A'', LastName = StringValue ''L'',
               CreatedAt = StringValue ''2024-01-01T00:00:00Z'',
               UpdatedAt = StringValue ''2024-03-03T00:00:00Z''\<rparr>\<rparr>,
            out_calls = [UpdateUser_call 42 \<lparr>Partial_Username = ''alice'',
               Partial_Email = ''a@x.com'', Partial_FirstName = ''A'',
               Partial_LastName = ''L''\<rparr>]\<rparr>"
  have run: "Update wall_clock \<lparr>client = Some panel\<rparr>
               \<lparr>Plan = \<lparr>Raw = alice_record, GetDiags = []\<rparr>\<rparr> prior_response = Inr ?out"
    by (simp add: Update_def Get_def State_Set_def partialUser_of_def wall_clock_def
        panel_def alice_record_def prior_response_def)
  have ok: "\<not> HasError (Diagnostics (out_resp ?out))"
    by simp
  have st: "State (out_resp ?out) = Some
          \<lparr>ID = Int32Value 42, Username = StringValue ''alice'',
           Email = StringValue ''a@x.com'',
           FirstName = StringValue ''A'', LastName = StringValue ''L'',
           CreatedAt = StringValue ''2024-01-01T00:00:00Z'',
           UpdatedAt = StringValue ''2024-03-03T00:00:00Z''\<rparr>"
    by simp
  show ?thesis
    by (rule exI [of _ ?out]) (intro conjI run ok st Update_success_record [OF run ok])
qed

subsection \<open>The payload of the remote update\<close>

text \<open>
  C4, as stated: the payload sent to the remote update call does not contain the
  username. It fails: for the plan of the user \<open>alice\<close> with id 42 the one call issued
  is the update of user 42 with a payload whose username field is \<open>alice\<close>.
\<close>

theorem Update_payload_counterexample:
  "map_sum id out_calls
     (Update wall_clock \<lparr>client = Some panel\<rparr>
        \<lparr>Plan = \<lparr>Raw = alice_record, GetDiags = []\<rparr>\<rparr> prior_response)
   = Inr [UpdateUser_call 42
            \<lparr>Partial_Username = ''alice'', Partial_Email = ''a@x.com'',
             Partial_FirstName = ''A'', Partial_LastName = ''L''\<rparr>]"
  by (simp add: Update_def Get_def State_Set_def partialUser_of_def wall_clock_def
      panel_def alice_record_def prior_response_def)

text \<open>
  C4, amended. Every \<open>Update\<close> whose plan decodes without error, on a configured
  client, issues exactly one remote call, the update of the plan's id, and its payload
  carries the plan's username together with its email, first name and last name.
\<close>

theorem Update_payload:
  assumes "\<not> HasError (Append (Diagnostics resp) (GetDiags (Plan req)))"
      and "client r = Some c"
  shows "\<exists>out. Update e r req resp = Inr out
       \<and> out_calls out =
           [UpdateUser_call (ValueInt32 (ID (Raw (Plan req))))
              \<lparr>Partial_Username = ValueString (Username (Raw (Plan req))),
               Partial_Email = ValueString (Email (Raw (Plan req))),
               Partial_FirstName = ValueString (FirstName (Raw (Plan req))),
               Partial_LastName = ValueString (LastName (Raw (Plan req)))\<rparr>]"
  using assms
  by (auto simp: Update_def Get_def Let_def partialUser_of_def
      split: option.splits sum.splits prod.splits)

theorem Update_payload_witness:
  "\<not> HasError (Append (Diagnostics prior_response)
        (GetDiags (Plan \<lparr>Plan = \<lparr>Raw = alice_record, GetDiags = []\<rparr>\<rparr>)))
   \<and> client \<lparr>client = Some panel_down\<rparr> = Some panel_down
   \<and> (\<exists>out. Update wall_clock \<lparr>client = Some panel_down\<rparr>
               \<lparr>Plan = \<lparr>Raw = alice_record, GetDiags = []\<rparr>\<rparr> prior_response = Inr out
       \<and> out_calls out =
           [UpdateUser_call 42
              \<lparr>Partial_Username = ''alice'', Partial_Email = ''a@x.com'',
               Partial_FirstName = ''A'', Partial_LastName = ''L''\<rparr>])"
proof -
  have dec: "\<not> HasError (Append (Diagnostics prior_response)
        (GetDiags (Plan \<lparr>Plan = \<lparr>Raw = alice_record, GetDiags = []\<rparr>\<rparr>)))"
    by (simp add: prior_response_def)
  have cl: "client \<lparr>client = Some panel_down\<rparr> = Some panel_down"
    by simp
  from Update_payload [OF dec cl, of wall_clock] dec cl show ?thesis
    by (simp add: alice_record_def)
qed

subsection \<open>Import\<close>

text \<open>
  C5, as stated: the imported record's username equals the lookup key. It fails: the
  panel answers the lookup of \<open>alice\<close> with the user whose username is \<open>alice2\<close>, and
  the record written carries \<open>alice2\<close>.
\<close>

theorem ImportState_username_counterexample:
  "map_sum id (State \<circ> out_resp)
     (ImportState wall_clock \<lparr>client = Some panel\<rparr> \<lparr>ImportID = ''alice''\<rparr> no_response)
   = Inr (Some \<lparr>ID = Int32Value 42, Username = StringValue ''alice2'',
                Email = StringValue ''b@x.com'',
                FirstName = StringValue ''Alice'', LastName = StringValue ''Liddell'',
                CreatedAt = StringValue ''2024-01-01T00:00:00Z'',
                UpdatedAt = StringValue ''2024-02-02T00:00:00Z''\<rparr>)"
  by (simp add: ImportState_def State_Set_def wall_clock_def panel_def no_response_def)

text \<open>
  C5, amended. Every successful \<open>ImportState\<close> looked the key up by username and wrote
  a record of seven known values, all from the remote payload: the username is the
  payload's, hence the key whenever the payload's username is the key. When the lookup
  fails, the method reports an import error and leaves the state as it was.
\<close>

theorem ImportState_record:
  "(\<forall>out. ImportState e r req resp = Inr out \<and> \<not> HasError (Diagnostics (out_resp out)) \<longrightarrow>
      (\<exists>c user. client r = Some c
         \<and> GetUserUsername c (ImportID req) = Inr user
         \<and> State (out_resp out) = Some
             \<lparr>ID = Int32Value (User_ID user),
              Username = StringValue (User_Username user),
              Email = StringValue (User_Email user),
              FirstName = StringValue (User_FirstName user),
              LastName = StringValue (User_LastName user),
              CreatedAt = StringValue (Format e (User_CreatedAt user) RFC3339),
              UpdatedAt = StringValue (Format e (User_UpdatedAt user) RFC3339)\<rparr>
         \<and> (User_Username user = ImportID req \<longrightarrow>
              map_option Username (State (out_resp out)) = Some (StringValue (ImportID req)))))
   \<and> (\<forall>c err. client r = Some c \<and> GetUserUsername c (ImportID req) = Inl err \<longrightarrow>
      (\<exists>out. ImportState e r req resp = Inr out
         \<and> State (out_resp out) = State resp
         \<and> HasError (Diagnostics (out_resp out))
         \<and> Contains (Diagnostics (out_resp out))
              (NewErrorDiagnostic ''Error Importing Pterodactyl User''
                 (''Could not import user: '' @ err))))"
  by (auto simp: ImportState_def Let_def State_Set_def HasError_Append HasError_AddError
      Contains_iff AddError_mem split: if_splits option.splits sum.splits)


theorem ImportState_record_witness:
  "(\<exists>out. ImportState wall_clock \<lparr>client = Some panel\<rparr> \<lparr>ImportID = ''alice2''\<rparr> no_response
            = Inr out
      \<and> \<not> HasError (Diagnostics (out_resp out))
      \<and> State (out_resp out) = Some
             \<lparr>ID = Int32Value 42, Username = StringValue ''alice2'',
              Email = StringValue ''b@x.com'',
              FirstName = StringValue ''Alice'', LastName = StringValue ''Liddell'',
              CreatedAt = StringValue ''2024-01-01T00:00:00Z'',
              UpdatedAt = StringValue ''2024-02-02T00:00:00Z''\<rparr>
      \<and> map_option Username (State (out_resp out)) = Some (StringValue ''alice2''))
   \<and> client \<lparr>client = Some panel_down\<rparr> = Some panel_down
   \<and> GetUserUsername panel_down ''alice'' = Inl ''connection refused''
   \<and> (\<exists>out. ImportState wall_clock \<lparr>client = Some panel_down\<rparr> \<lparr>ImportID = ''alice''\<rparr>
               no_response = Inr out
      \<and> State (out_resp out) = None
      \<and> HasError (Diagnostics (out_resp out))
      \<and> Contains (Diagnostics (out_resp out))
           (NewErrorDiagnostic ''Error Importing Pterodactyl User''
              ''Could not import user: connection refused''))"
proof -
  let ?out = "\<lparr>out_resp = \<lparr>Diagnostics = [], State = Some
                \<lparr>ID = Int32Value 42, Username = StringValue ''alice2'',
                 Email = StringValue ''b@x.com'',
                 FirstName = StringValue ''Alice'', LastName = StringValue ''Liddell'',
                 CreatedAt = StringValue ''2024-01-01T00:00:00Z'',
                 UpdatedAt = StringValue ''2024-02-02T00:00:00Z''\<rparr>\<rparr>,
              out_calls = [GetUserUsername_call ''alice2'']\<rparr>"
  have run: "ImportState wall_clock \<lparr>client = Some panel\<rparr> \<lparr>ImportID = ''alice2''\<rparr>
               no_response = Inr ?out"
    by (simp add: ImportState_def State_Set_def wall_clock_def panel_def no_response_def)
  have ok: "\<not> HasError (Diagnostics (out_resp ?out))"
    by simp
  have up: "GetUserUsername panel (ImportID \<lparr>ImportID = ''alice2''\<rparr>) = Inr user
              \<Longrightarrow> User_Username user = ImportID \<lparr>ImportID = ''alice2''\<rparr>" for user
    by (auto simp: panel_def)
  from ImportState_record [of wall_clock "\<lparr>client = Some panel\<rparr>"
      "\<lparr>ImportID = ''alice2''\<rparr>" no_response] run ok
  have "\<exists>c user. client \<lparr>client = Some panel\<rparr> = Some c
         \<and> GetUserUsername c (ImportID \<lparr>ImportID = ''alice2''\<rparr>) = Inr user
         \<and> (User_Username user = ImportID \<lparr>ImportID = ''alice2''\<rparr> \<longrightarrow>
              map_option Username (State (out_resp ?out))
                = Some (StringValue (ImportID \<lparr>ImportID = ''alice2''\<rparr>)))"
    by blast
  with up have key: "map_option Username (State (out_resp ?out)) = Some (StringValue ''alice2'')"
    by auto
  have first: "\<exists>out. ImportState wall_clock \<lparr>client = Some panel\<rparr> \<lparr>ImportID = ''alice2''\<rparr>
        no_response = Inr out
      \<and> \<not> HasError (Diagnostics (out_resp out))
      \<and> State (out_resp out) = Some
             \<lparr>ID = Int32Value 42, Username = StringValue ''alice2'',
              Email = StringValue ''b@x.com'',
              FirstName = StringValue ''Alice'', LastName = StringValue ''Liddell'',
              CreatedAt = StringValue ''2024-01-01T00:00:00Z'',
              UpdatedAt = StringValue ''2024-02-02T00:00:00Z''\<rparr>
      \<and> map_option Username (State (out_resp out)) = Some (StringValue ''alice2'')"
    using run ok key by (intro exI [of _ ?out]) simp
  have cl: "client \<lparr>client = Some panel_down\<rparr> = Some panel_down"
    by simp
  have fail: "GetUserUsername panel_down ''alice'' = Inl ''connection refused''"
    by (simp add: panel_down_def)
  from ImportState_record [of wall_clock "\<lparr>client = Some panel_down\<rparr>"
      "\<lparr>ImportID = ''alice''\<rparr>" no_response] cl fail
  have second: "\<exists>out. ImportState wall_clock \<lparr>client = Some panel_down\<rparr>
        \<lparr>ImportID = ''alice''\<rparr> no_response = Inr out
      \<and> State (out_resp out) = None
      \<and> HasError (Diagnostics (out_resp out))
      \<and> Contains (Diagnostics (out_resp out))
           (NewErrorDiagnostic ''Error Importing Pterodactyl User''
              ''Could not import user: connection refused'')"
    by (simp add: no_response_def)
  from first cl fail second show ?thesis
    by (intro conjI)
qed

subsection \<open>Failing remote calls\<close>

lemma Create_remote_failure:
  assumes "\<not> HasError (Append (Diagnostics resp) (GetDiags (Plan req)))"
      and "client r = Some c"
      and "CreateUser c (partialUser_of (Raw (Plan req))) = Inl err"
  shows "Create e r req resp =
           Inr \<lparr>out_resp = resp\<lparr>Diagnostics :=
                   AddError (Append (Diagnostics resp) (GetDiags (Plan req)))
                     ''Error creating user''
                     (''Could not create user, unexpected error: '' @ err)\<rparr>,
                out_calls = [CreateUser_call (partialUser_of (Raw (Plan req)))]\<rparr>"
  using assms by (simp add: Create_def Get_def)

lemma Read_remote_failure:
  assumes "\<not> HasError (Append (Diagnostics resp) (GetDiags (ReqState req)))"
      and "client r = Some c"
      and "GetUser c (ValueInt32 (ID (Raw (ReqState req)))) = Inl err"
  shows "Read e r req resp =
           Inr \<lparr>out_resp = resp\<lparr>Diagnostics :=
                   AddError (Append (Diagnostics resp) (GetDiags (ReqState req)))
                     ''Error Reading Pterodactyl User''
                     (''Could not read Pterodactyl user ID ''
                        @ FormatInt (sint (ValueInt32 (ID (Raw (ReqState req)))))
                        @ '': '' @ err)\<rparr>,
                out_calls = [GetUser_call (ValueInt32 (ID (Raw (ReqState req))))]\<rparr>"
  using assms by (simp add: Read_def Get_def)

lemma Update_remote_failure:
  assumes "\<not> HasError (Append (Diagnostics resp) (GetDiags (Plan req)))"
      and "client r = Some c"
      and "UpdateUser c (ValueInt32 (ID (Raw (Plan req)))) (partialUser_of (Raw (Plan req)))
             = Inl err"
  shows "Update e r req resp =
           Inr \<lparr>out_resp = resp\<lparr>Diagnostics :=
                   AddError (Append (Diagnostics resp) (GetDiags (Plan req)))
                     ''Error Updating Pterodactyl User''
                     (''Could not update user, unexpected error: '' @ err)\<rparr>,
                out_calls = [UpdateUser_call (ValueInt32 (ID (Raw (Plan req))))
                               (partialUser_of (Raw (Plan req)))]\<rparr>"
  using assms by (simp add: Update_def Get_def)

lemma Delete_remote_failure:
  assumes "\<not> HasError (Append (Diagnostics resp) (GetDiags (ReqState req)))"
      and "client r = Some c"
      and "DeleteUser c (ValueInt32 (ID (Raw (ReqState req)))) = Some err"
  shows "Delete r req resp =
           Inr \<lparr>out_resp = resp\<lparr>Diagnostics :=
                   AddError (Append (Diagnostics resp) (GetDiags (ReqState req)))
                     ''Error Deleting Pterodactyl User''
                     (''Could not delete user, unexpected error: '' @ err)\<rparr>,
                out_calls = [DeleteUser_call (ValueInt32 (ID (Raw (ReqState req))))]\<rparr>"
  using assms by (simp add: Delete_def Get_def)

lemma ImportState_remote_failure:
  assumes "client r = Some c"
      and "GetUserUsername c (ImportID req) = Inl err"
  shows "ImportState e r req resp =
           Inr \<lparr>out_resp = resp\<lparr>Diagnostics :=
                   AddError (Diagnostics resp) ''Error Importing Pterodactyl User''
                     (''Could not import user: '' @ err)\<rparr>,
                out_calls = [GetUserUsername_call (ImportID req)]\<rparr>"
  using assms by (simp add: ImportState_def)

lemma aborted_AddError:
  "aborted resp summary detail
     (Inr \<lparr>out_resp = resp\<lparr>Diagnostics := AddError ds summary detail\<rparr>, out_calls = cs\<rparr>)"
  by (simp add: aborted_def Contains_iff AddError_mem)

text \<open>
  C6. Let the client be configured. Whenever the remote call of \<open>Create\<close>, \<open>Read\<close>,
  \<open>Update\<close>, \<open>Delete\<close> or \<open>ImportState\<close> fails (for the first four the call is reached
  when the decoding reported no error), the method returns, its diagnostics hold an
  error diagnostic whose summary names the operation and whose detail is an explanation
  followed by the text of the underlying error, and the state of the response is the
  one that was passed in.
\<close>

theorem remote_failure_aborts:
  assumes "client r = Some c"
  shows "(\<not> HasError (Append (Diagnostics resp) (GetDiags (Plan preq)))
           \<and> CreateUser c (partialUser_of (Raw (Plan preq))) = Inl err \<longrightarrow>
          aborted resp ''Error creating user''
            (''Could not create user, unexpected error: '' @ err) (Create e r preq resp))
       \<and> (\<not> HasError (Append (Diagnostics resp) (GetDiags (ReqState sreq)))
           \<and> GetUser c (ValueInt32 (ID (Raw (ReqState sreq)))) = Inl err \<longrightarrow>
          aborted resp ''Error Reading Pterodactyl User''
            (''Could not read Pterodactyl user ID ''
               @ FormatInt (sint (ValueInt32 (ID (Raw (ReqState sreq))))) @ '': '' @ err)
            (Read e r sreq resp))
       \<and> (\<not> HasError (Append (Diagnostics resp) (GetDiags (Plan preq)))
           \<and> UpdateUser c (ValueInt32 (ID (Raw (Plan preq)))) (partialUser_of (Raw (Plan preq)))
               = Inl err \<longrightarrow>
          aborted resp ''Error Updating Pterodactyl User''
            (''Could not update user, unexpected error: '' @ err) (Update e r preq resp))
       \<and> (\<not> HasError (Append (Diagnostics resp) (GetDiags (ReqState sreq)))
           \<and> DeleteUser c (ValueInt32 (ID (Raw (ReqState sreq)))) = Some err \<longrightarrow>
          aborted resp ''Error Deleting Pterodactyl User''
            (''Could not delete user, unexpected error: '' @ err) (Delete r sreq resp))
       \<and> (GetUserUsername c (ImportID ireq) = Inl err \<longrightarrow>
          aborted resp ''Error Importing Pterodactyl User''
            (''Could not import user: '' @ err) (ImportState e r ireq resp))"
  using assms
  by (simp add: Create_remote_failure Read_remote_failure Update_remote_failure
      Delete_remote_failure ImportState_remote_failure aborted_AddError)

theorem remote_failure_aborts_witness:
  "client \<lparr>client = Some panel_down\<rparr> = Some panel_down
   \<and> aborted prior_response ''Error creating user''
       ''Could not create user, unexpected error: connection refused''
       (Create wall_clock \<lparr>client = Some panel_down\<rparr>
          \<lparr>Plan = \<lparr>Raw = alice_record, GetDiags = []\<rparr>\<rparr> prior_response)
   \<and> aborted prior_response ''Error Reading Pterodactyl User''
       ''Could not read Pterodactyl user ID 42: connection refused''
       (Read wall_clock \<lparr>client = Some panel_down\<rparr>
          \<lparr>ReqState = \<lparr>Raw = alice_record, GetDiags = []\<rparr>\<rparr> prior_response)
   \<and> aborted prior_response ''Error Updating Pterodactyl User''
       ''Could not update user, unexpected error: connection refused''
       (Update wall_clock \<lparr>client = Some panel_down\<rparr>
          \<lparr>Plan = \<lparr>Raw = alice_record, GetDiags = []\<rparr>\<rparr> prior_response)
   \<and> aborted prior_response ''Error Deleting Pterodactyl User''
       ''Could not delete user, unexpected error: connection refused''
       (Delete \<lparr>client = Some panel_down\<rparr>
          \<lparr>ReqState = \<lparr>Raw = alice_record, GetDiags = []\<rparr>\<rparr> prior_response)
   \<and> aborted prior_response ''Error Importing Pterodactyl User''
       ''Could not import user: connection refused''
       (ImportState wall_clock \<lparr>client = Some panel_down\<rparr> \<lparr>ImportID = ''alice''\<rparr>
          prior_response)"
proof -
  have cl: "client \<lparr>client = Some panel_down\<rparr> = Some panel_down"
    by simp
  have id: "FormatInt (sint (ValueInt32 (ID alice_record))) = ''42''"
    by (simp add: alice_record_def FormatInt_def formatBits.simps digits_def)
  from remote_failure_aborts [OF cl, where resp = prior_response
      and preq = "\<lparr>Plan = \<lparr>Raw = alice_record, GetDiags = []\<rparr>\<rparr>"
      and sreq = "\<lparr>ReqState = \<lparr>Raw = alice_record, GetDiags = []\<rparr>\<rparr>"
      and ireq = "\<lparr>ImportID = ''alice''\<rparr>"
      and err = "''connection refused''" and e = wall_clock] cl id
  show ?thesis
    by (simp add: panel_down_def prior_response_def)
qed


text \<open>
  C7. When the fetch by id fails, \<open>Read\<close> returns with an error diagnostic of summary
  \<^verbatim>\<open>Error Reading Pterodactyl User\<close> whose detail holds, between a fixed prefix and the
  error text, the output of \<open>FormatInt\<close> for the id of the input record, and that output
  is the decimal numeral of the id read as a signed 32-bit integer.
\<close>

theorem Read_failure_reports_id:
  assumes "\<not> HasError (Append (Diagnostics resp) (GetDiags (ReqState req)))"
      and "client r = Some c"
      and "GetUser c (ValueInt32 (ID (Raw (ReqState req)))) = Inl err"
  shows "\<exists>out d. Read e r req resp = Inr out
       \<and> Contains (Diagnostics (out_resp out)) d
       \<and> Severity d = SeverityError
       \<and> Summary d = ''Error Reading Pterodactyl User''
       \<and> Detail d = ''Could not read Pterodactyl user ID ''
                      @ FormatInt (sint (ValueInt32 (ID (Raw (ReqState req))))) @ '': '' @ err
       \<and> decimal_value (FormatInt (sint (ValueInt32 (ID (Raw (ReqState req))))))
           = sint (ValueInt32 (ID (Raw (ReqState req))))"
proof -
  let ?d = "NewErrorDiagnostic ''Error Reading Pterodactyl User''
              (''Could not read Pterodactyl user ID ''
                 @ FormatInt (sint (ValueInt32 (ID (Raw (ReqState req))))) @ '': '' @ err)"
  from Read_remote_failure [OF assms, of e]
  have "\<exists>out. Read e r req resp = Inr out \<and> Contains (Diagnostics (out_resp out)) ?d"
    by (simp add: Contains_iff AddError_mem)
  then obtain out where "Read e r req resp = Inr out"
    and "Contains (Diagnostics (out_resp out)) ?d"
    by blast
  moreover have "Severity ?d = SeverityError"
    and "Summary ?d = ''Error Reading Pterodactyl User''"
    and "Detail ?d = ''Could not read Pterodactyl user ID ''
           @ FormatInt (sint (ValueInt32 (ID (Raw (ReqState req))))) @ '': '' @ err"
    by simp_all
  ultimately show ?thesis
    using decimal_value_FormatInt by blast
qed

theorem Read_failure_reports_id_witness:
  "\<not> HasError (Append (Diagnostics prior_response)
        (GetDiags (ReqState \<lparr>ReqState = \<lparr>Raw = alice_record, GetDiags = []\<rparr>\<rparr>)))
   \<and> client \<lparr>client = Some panel_down\<rparr> = Some panel_down
   \<and> GetUser panel_down
        (ValueInt32 (ID (Raw (ReqState \<lparr>ReqState = \<lparr>Raw = alice_record, GetDiags = []\<rparr>\<rparr>))))
       = Inl ''connection refused''
   \<and> (\<exists>out d. Read wall_clock \<lparr>client = Some panel_down\<rparr>
                 \<lparr>ReqState = \<lparr>Raw = alice_record, GetDiags = []\<rparr>\<rparr> prior_response = Inr out
       \<and> Contains (Diagnostics (out_resp out)) d
       \<and> Severity d = SeverityError
       \<and> Summary d = ''Error Reading Pterodactyl User''
       \<and> Detail d = ''Could not read Pterodactyl user ID 42: connection refused''
       \<and> decimal_value ''42'' = 42)"
proof -
  have dec: "\<not> HasError (Append (Diagnostics prior_response)
        (GetDiags (ReqState \<lparr>ReqState = \<lparr>Raw = alice_record, GetDiags = []\<rparr>\<rparr>)))"
    by (simp add: prior_response_def)
  have cl: "client \<lparr>client = Some panel_down\<rparr> = Some panel_down"
    by simp
  have fail: "GetUser panel_down
        (ValueInt32 (ID (Raw (ReqState \<lparr>ReqState = \<lparr>Raw = alice_record, GetDiags = []\<rparr>\<rparr>))))
       = Inl ''connection refused''"
    by (simp add: panel_down_def)
  have id: "FormatInt (sint (ValueInt32 (ID alice_record))) = ''42''"
    and v: "sint (ValueInt32 (ID alice_record)) = 42"
    by (simp_all add: alice_record_def FormatInt_def formatBits.simps digits_def)
  from Read_failure_reports_id [OF dec cl fail, of wall_clock] dec cl fail id v
  show ?thesis
    by simp
qed

subsection \<open>Decoding errors\<close>

text \<open>
  C9. When the decoding of the incoming plan (\<open>Create\<close>, \<open>Update\<close>) or state (\<open>Read\<close>,
  \<open>Delete\<close>) yields a diagnostic of error severity, the method returns at once: the
  response holds the diagnostics appended and the state as passed in, and no remote call
  is issued. This holds also when no client is configured.
\<close>

theorem decode_error_no_remote_call:
  "(HasError (GetDiags (Plan preq)) \<longrightarrow>
      Create e r preq resp =
        Inr \<lparr>out_resp = resp\<lparr>Diagnostics := Append (Diagnostics resp) (GetDiags (Plan preq))\<rparr>,
             out_calls = []\<rparr>
    \<and> Update e r preq resp =
        Inr \<lparr>out_resp = resp\<lparr>Diagnostics := Append (Diagnostics resp) (GetDiags (Plan preq))\<rparr>,
             out_calls = []\<rparr>)
   \<and> (HasError (GetDiags (ReqState sreq)) \<longrightarrow>
      Read e r sreq resp =
        Inr \<lparr>out_resp = resp\<lparr>Diagnostics := Append (Diagnostics resp) (GetDiags (ReqState sreq))\<rparr>,
             out_calls = []\<rparr>
    \<and> Delete r sreq resp =
        Inr \<lparr>out_resp = resp\<lparr>Diagnostics := Append (Diagnostics resp) (GetDiags (ReqState sreq))\<rparr>,
             out_calls = []\<rparr>)"
  by (simp add: Create_def Update_def Read_def Delete_def Get_def HasError_Append)

theorem decode_error_no_remote_call_witness:
  "HasError (GetDiags (Plan \<lparr>Plan = undecodable\<rparr>))
   \<and> HasError (GetDiags (ReqState \<lparr>ReqState = undecodable\<rparr>))
   \<and> map_sum id out_calls
        (Create wall_clock \<lparr>client = Some panel\<rparr> \<lparr>Plan = undecodable\<rparr> prior_response) = Inr []
   \<and> map_sum id out_calls
        (Update wall_clock \<lparr>client = Some panel\<rparr> \<lparr>Plan = undecodable\<rparr> prior_response) = Inr []
   \<and> map_sum id out_calls
        (Read wall_clock \<lparr>client = Some panel\<rparr> \<lparr>ReqState = undecodable\<rparr> prior_response) = Inr []
   \<and> map_sum id out_calls
        (Delete \<lparr>client = Some panel\<rparr> \<lparr>ReqState = undecodable\<rparr> prior_response) = Inr []"
proof -
  have p: "HasError (GetDiags (Plan \<lparr>Plan = undecodable\<rparr>))"
    and s: "HasError (GetDiags (ReqState \<lparr>ReqState = undecodable\<rparr>))"
    by (simp_all add: undecodable_def)
  from decode_error_no_remote_call [where preq = "\<lparr>Plan = undecodable\<rparr>"
      and sreq = "\<lparr>ReqState = undecodable\<rparr>" and e = wall_clock
      and r = "\<lparr>client = Some panel\<rparr>" and resp = prior_response] p s
  show ?thesis
    by simp
qed

subsection \<open>Configure\<close>

text \<open>
  C8. When the provider data is not nil and is not a \<open>*pterodactyl.Client\<close>,
  \<open>Configure\<close> adds an error diagnostic naming the type it received and does not
  assign the client field: the resource is as before, so a new resource still has no
  client.
\<close>

theorem Configure_type_mismatch:
  assumes "\<not> is_nil (ProviderData req)"
      and "\<not> snd (assert_Client (ProviderData req))"
  shows "fst (Configure r req resp) = r
       \<and> client (fst (Configure r req resp)) = client r
       \<and> HasError (Diagnostics (snd (Configure r req resp)))
       \<and> Contains (Diagnostics (snd (Configure r req resp)))
           (NewErrorDiagnostic ''Unexpected Data Source Configure Type''
              (''Expected *pterodactyl.Client, got: '' @ type_name (ProviderData req)
                 @ ''. Please report this issue to the provider developers.''))"
  using assms
  by (simp add: Configure_def case_prod_unfold HasError_AddError Contains_iff AddError_mem)

theorem Configure_type_mismatch_witness:
  "\<not> is_nil (ProviderData \<lparr>ProviderData = Other_value ''string'' :: string any\<rparr>)
   \<and> \<not> snd (assert_Client (ProviderData \<lparr>ProviderData = Other_value ''string'' :: string any\<rparr>))
   \<and> client (fst (Configure NewUserResource \<lparr>ProviderData = Other_value ''string''\<rparr>
                  \<lparr>Diagnostics = []\<rparr>)) = (None :: string Client option)
   \<and> Diagnostics (snd (Configure (NewUserResource :: string userResource)
                  \<lparr>ProviderData = Other_value ''string''\<rparr> \<lparr>Diagnostics = []\<rparr>))
       = [NewErrorDiagnostic ''Unexpected Data Source Configure Type''
           ''Expected *pterodactyl.Client, got: string. Please report this issue to the provider developers.'']"
proof -
  have n: "\<not> is_nil (ProviderData \<lparr>ProviderData = Other_value ''string'' :: string any\<rparr>)"
    and a: "\<not> snd (assert_Client
                (ProviderData \<lparr>ProviderData = Other_value ''string'' :: string any\<rparr>))"
    by simp_all
  have run: "Configure (NewUserResource :: string userResource)
               \<lparr>ProviderData = Other_value ''string''\<rparr> \<lparr>Diagnostics = []\<rparr>
             = (NewUserResource,
                \<lparr>Diagnostics = [NewErrorDiagnostic ''Unexpected Data Source Configure Type''
           ''Expected *pterodactyl.Client, got: string. Please report this issue to the provider developers.'']\<rparr>)"
    by (simp add: Configure_def AddError_def)
  from Configure_type_mismatch [OF n a, of NewUserResource "\<lparr>Diagnostics = []\<rparr>"] n a run
  show ?thesis
    by (simp add: NewUserResource_def)
qed

text \<open>
  C10. With a nil provider data handle \<open>Configure\<close> returns the resource and the
  response unchanged: no diagnostic is added and the client field is not assigned.
\<close>

theorem Configure_nil:
  assumes "is_nil (ProviderData req)"
  shows "Configure r req resp = (r, resp)"
  using assms by (simp add: Configure_def)

theorem Configure_nil_witness:
  "is_nil (ProviderData \<lparr>ProviderData = any_nil :: string any\<rparr>)
   \<and> Configure (NewUserResource :: string userResource) \<lparr>ProviderData = any_nil\<rparr>
        \<lparr>Diagnostics = []\<rparr> = (NewUserResource, \<lparr>Diagnostics = []\<rparr>)"
proof -
  have n: "is_nil (ProviderData \<lparr>ProviderData = any_nil :: string any\<rparr>)"
    by simp
  from Configure_nil [OF n] n show ?thesis
    by simp
qed


end
